theory Spec2Isabelle
  imports Complex_Main
begin

section \<open>Numbers and text of the Python source\<close>

text \<open>
  The invoice engine computes with Python floats that the specification calls decimals.
  Amounts are modelled as reals: every comparison, product and quotient of the source is
  the same operation on reals, and \<open>math.log2\<close> is \<open>log 2\<close>. Rounding error of the
  binary representation is outside the model.

  Python renders numbers into the messages with \<open>format(x, '.Nf')\<close> and \<open>str(x)\<close>.
  Both are library functions; they are taken as a parameter \<open>F\<close> of every function that
  builds text, so that each result below holds for whatever rendering is used.
\<close>

record pyfmt =
  fixed :: "nat \<Rightarrow> real \<Rightarrow> string"
  plain :: "real \<Rightarrow> string"

datatype py_error = TypeError | ValueError | ZeroDivisionError

text \<open>\<open>str(n)\<close> of a non-negative \<open>int\<close>: its decimal digits.\<close>

fun str_nat :: "nat \<Rightarrow> string" where
  "str_nat n = (if n < 10 then [char_of (48 + n)]
                else str_nat (n div 10) @ [char_of (48 + n mod 10)])"

declare str_nat.simps [simp del]

text \<open>\<open>sep.join(xs)\<close>.\<close>

fun join :: "string \<Rightarrow> string list \<Rightarrow> string" where
  "join sep [] = []"
| "join sep [x] = x"
| "join sep (x # y # ys) = x @ sep @ join sep (y # ys)"

text \<open>\<open>str(x)\<close> of a value that is a string or \<open>None\<close>.\<close>

definition str_opt :: "string option \<Rightarrow> string" where
  "str_opt s = (case s of None \<Rightarrow> ''None'' | Some t \<Rightarrow> t)"

text \<open>\<open>round(x, d)\<close>: to \<open>d\<close> decimals, a tie going to the even neighbour.\<close>

definition round_half_even :: "real \<Rightarrow> int" where
  "round_half_even x =
     (let f = \<lfloor>x\<rfloor>; d = x - of_int f
      in if d < 1 / 2 then f else if 1 / 2 < d then f + 1 else if even f then f else f + 1)"

definition py_round :: "real \<Rightarrow> nat \<Rightarrow> real" where
  "py_round x d = of_int (round_half_even (x * 10 ^ d)) / 10 ^ d"

text \<open>Characters of the messages that are outside the literal syntax: the apostrophe, and
  the UTF-8 bytes of the en dash and the em dash.\<close>

definition apos :: string where
  "apos = [CHR 0x27]"

definition en_dash :: string where
  "en_dash = [CHR 0xE2, CHR 0x80, CHR 0x93]"

definition em_dash :: string where
  "em_dash = [CHR 0xE2, CHR 0x80, CHR 0x94]"

text \<open>\<open>s.strip()\<close>, for the ASCII white space.\<close>

definition is_space :: "char \<Rightarrow> bool" where
  "is_space c = (c \<in> set [CHR 0x20, CHR 0x09, CHR 0x0A, CHR 0x0B, CHR 0x0C, CHR 0x0D,
                            CHR 0x1C, CHR 0x1D, CHR 0x1E, CHR 0x1F])"

definition strip :: "string \<Rightarrow> string" where
  "strip s = rev (dropWhile is_space (rev (dropWhile is_space s)))"

section \<open>Policies (vendor\_data.py)\<close>

definition PRICE_RANGE_BUFFER :: real where
  "PRICE_RANGE_BUFFER = 0.15"

definition MAX_PRICE_RATIO_HIGH :: real where
  "MAX_PRICE_RATIO_HIGH = 1.5"

definition MAX_PRICE_RATIO_LOW :: real where
  "MAX_PRICE_RATIO_LOW = 0.75"

definition VALID_TAX_RATES :: "real list" where
  "VALID_TAX_RATES = [0.0, 0.075, 0.0825, 0.095]"

definition TAX_TOLERANCE :: real where
  "TAX_TOLERANCE = 0.005"

section \<open>Invoice data\<close>

text \<open>
  A line item as the extractor builds it: the description is always a string, the three
  numbers are a float or \<open>None\<close>. The invoice record holds what \<open>record_invoice\<close> reads;
  \<open>invoice_number\<close> distinguishes a missing key (\<open>None\<close>, for which \<open>dict.get\<close> falls back
  on its default) from a key holding \<open>None\<close> (\<open>Some None\<close>).
\<close>

record line_item =
  description :: string
  quantity :: "real option"
  unit_price :: "real option"
  line_total :: "real option"

record invoice_data =
  invoice_number :: "string option option"
  invoice_date :: "string option"
  line_items :: "line_item list"
  inv_total :: "real option"
  inv_tax :: "real option"
  inv_shipping :: "real option"

text \<open>Python's truth test of a float or \<open>None\<close>: \<open>None\<close> and zero are false.\<close>

definition truthy :: "real option \<Rightarrow> bool" where
  "truthy v = (case v of None \<Rightarrow> False | Some x \<Rightarrow> x \<noteq> 0)"

text \<open>\<open>v or d\<close> for a float or \<open>None\<close>.\<close>

definition or_else :: "real option \<Rightarrow> real \<Rightarrow> real" where
  "or_else v d = (case v of None \<Rightarrow> d | Some x \<Rightarrow> if x = 0 then d else x)"

section \<open>The learning store (vendor\_db.py)\<close>

record price_point =
  pp_unit_price :: "real option"
  pp_quantity :: "real option"
  pp_line_total :: "real option"
  pp_date :: "string option"
  pp_invoice_id :: "string option"

record invoice_entry =
  ie_invoice_number :: "string option"
  ie_vendor :: string
  ie_date :: "string option"
  ie_total :: "real option"
  ie_tax :: "real option"
  ie_shipping :: "real option"
  ie_recorded_at :: string

record metadata =
  created :: string
  version :: string
  last_updated :: "string option"

text \<open>The JSON document. \<open>price_history\<close> is a dict; its keys keep their insertion
  order, so it is an association list with one entry per key.\<close>

record learning_db =
  db_metadata :: metadata
  invoices :: "invoice_entry list"
  price_history :: "(string \<times> price_point list) list"

text \<open>The store is the file at \<open>DB_PATH\<close>: absent, or holding a document.\<close>

type_synonym store = "learning_db option"

text \<open>What \<open>datetime.now\<close> returns at the three places that read the clock during one
  call: in \<open>_load_db\<close>, at the invoice entry, and in \<open>_save_db\<close>.\<close>

record clock =
  at_load :: string
  at_entry :: string
  at_save :: string

definition load_db :: "clock \<Rightarrow> store \<Rightarrow> learning_db" where
  "load_db clk st =
     (case st of
        Some db \<Rightarrow> db
      | None \<Rightarrow> \<lparr>db_metadata = \<lparr>created = at_load clk, version = ''1.0'', last_updated = None\<rparr>,
                 invoices = [], price_history = []\<rparr>)"

definition save_db :: "clock \<Rightarrow> learning_db \<Rightarrow> store" where
  "save_db clk db =
     Some (db\<lparr>db_metadata := (db_metadata db)\<lparr>last_updated := Some (at_save clk)\<rparr>\<rparr>)"

text \<open>\<open>db["price_history"][key].append(p)\<close>, after the key was created when missing.\<close>

fun append_point :: "string \<Rightarrow> price_point \<Rightarrow> (string \<times> price_point list) list
    \<Rightarrow> (string \<times> price_point list) list" where
  "append_point k p [] = [(k, [p])]"
| "append_point k p ((k', ps) # rest) =
     (if k = k' then (k', ps @ [p]) # rest else (k', ps) # append_point k p rest)"

text \<open>One round of the loop over the line items in \<open>record_invoice\<close>.\<close>

definition record_item :: "string \<Rightarrow> invoice_data \<Rightarrow> string option \<Rightarrow> line_item
    \<Rightarrow> (string \<times> price_point list) list \<Rightarrow> (string \<times> price_point list) list" where
  "record_item vendor_name idata invoice_id item ph =
     (let desc = strip (description item)
      in if desc = [] then ph
         else append_point (vendor_name @ ''|'' @ desc)
                \<lparr>pp_unit_price = unit_price item, pp_quantity = quantity item,
                 pp_line_total = line_total item, pp_date = invoice_date idata,
                 pp_invoice_id = invoice_id\<rparr> ph)"

text \<open>\<open>record_invoice\<close>. The function returns the store it leaves behind: the file is
  written by \<open>_save_db\<close> only, at the end of the recording path.\<close>

definition record_invoice :: "clock \<Rightarrow> invoice_data \<Rightarrow> string \<Rightarrow> string \<Rightarrow> store \<Rightarrow> store" where
  "record_invoice clk idata decision_status vendor_name st =
     (if decision_status \<noteq> ''APPROVED'' then st
      else
        let db = load_db clk st;
            invoice_id = (case invoice_number idata of None \<Rightarrow> Some ''UNKNOWN'' | Some v \<Rightarrow> v)
        in if invoice_id \<in> set (map ie_invoice_number (invoices db)) then st
           else
             let db1 = db\<lparr>invoices := invoices db @
                         [\<lparr>ie_invoice_number = invoice_id, ie_vendor = vendor_name,
                           ie_date = invoice_date idata, ie_total = inv_total idata,
                           ie_tax = inv_tax idata, ie_shipping = inv_shipping idata,
                           ie_recorded_at = at_entry clk\<rparr>]\<rparr>;
                 db2 = db1\<lparr>price_history :=
                         fold (record_item vendor_name idata invoice_id) (line_items idata)
                           (price_history db1)\<rparr>
             in save_db clk db2)"

text \<open>\<open>get_learned_rate\<close>, with the summary it returns.\<close>

record rate_data =
  rate_n :: nat
  rate_min :: real
  rate_max :: real
  rate_avg :: real
  avg_qty :: real

definition get_learned_rate :: "clock \<Rightarrow> store \<Rightarrow> string \<Rightarrow> string \<Rightarrow> rate_data option" where
  "get_learned_rate clk st vendor_name item_name =
     (let db = load_db clk st;
          history = (case map_of (price_history db) (vendor_name @ ''|'' @ item_name) of
                       None \<Rightarrow> [] | Some h \<Rightarrow> h);
          prices = List.map_filter pp_unit_price history;
          qtys = List.map_filter pp_quantity history
      in case prices of
           [] \<Rightarrow> None
         | p # ps \<Rightarrow>
             Some \<lparr>rate_n = length prices, rate_min = fold min ps p, rate_max = fold max ps p,
                   rate_avg = sum_list prices / real (length prices),
                   avg_qty = (if qtys = [] then 1 else sum_list qtys / real (length qtys))\<rparr>)"

section \<open>Price comparison (comparator.py)\<close>

text \<open>One entry of \<open>PRICE_HISTORY\<close>: a price point of one invoice.\<close>

record price_record =
  price :: real
  qty :: "real option"
  invoice :: string

text \<open>\<open>_summarize_history\<close>. \<open>min\<close> of an empty list raises; the list of the single prices
  that the source also returns is read by nobody and is left out.\<close>

definition summarize_history :: "price_record list \<Rightarrow> py_error + rate_data" where
  "summarize_history records =
     (let prices = map price records;
          qtys = List.map_filter (\<lambda>r. if truthy (qty r) then qty r else None) records
      in case prices of
           [] \<Rightarrow> Inl ValueError
         | p # ps \<Rightarrow>
             Inr \<lparr>rate_n = length prices, rate_min = fold min ps p, rate_max = fold max ps p,
                  rate_avg = sum_list prices / real (length prices),
                  avg_qty = (if qtys = [] then 1 else sum_list qtys / real (length qtys))\<rparr>)"

text \<open>\<open>_quantity_adjustment_factor\<close>. The first test is Python's
  \<open>not invoice_qty or not historical_avg_qty or historical_avg_qty <= 0\<close> on two floats.\<close>

definition quantity_adjustment_factor :: "real \<Rightarrow> real \<Rightarrow> real" where
  "quantity_adjustment_factor invoice_qty historical_avg_qty =
     (if invoice_qty = 0 \<or> historical_avg_qty = 0 \<or> historical_avg_qty \<le> 0 then 1
      else
        let qty_ratio = invoice_qty / historical_avg_qty
        in if 0.5 \<le> qty_ratio \<and> qty_ratio \<le> 2 then 1
           else
             let adjustment = 1 / (1 + 0.25 * log 2 (max qty_ratio 0.1))
             in max 0.4 (min 2 adjustment))"

text \<open>The local variables of the loop body of \<open>compare_line_items\<close>, one definition
  each, in the order of the source.\<close>

definition invoice_qty_of :: "line_item \<Rightarrow> real" where
  "invoice_qty_of item = or_else (quantity item) 1"

definition sample_buffer :: "nat \<Rightarrow> real" where
  "sample_buffer n = PRICE_RANGE_BUFFER + max 0 ((5 - real n) * 0.10)"

definition qty_factor :: "rate_data \<Rightarrow> real \<Rightarrow> real" where
  "qty_factor rd invoice_qty = quantity_adjustment_factor invoice_qty (avg_qty rd)"

definition adjusted_min :: "rate_data \<Rightarrow> real \<Rightarrow> real" where
  "adjusted_min rd invoice_qty =
     rate_min rd * (1 - sample_buffer (rate_n rd)) * qty_factor rd invoice_qty"

definition adjusted_max :: "rate_data \<Rightarrow> real \<Rightarrow> real" where
  "adjusted_max rd invoice_qty =
     rate_max rd * (1 + sample_buffer (rate_n rd)) * max (qty_factor rd invoice_qty) 1"

definition adjusted_avg :: "rate_data \<Rightarrow> real \<Rightarrow> real" where
  "adjusted_avg rd invoice_qty = rate_avg rd * qty_factor rd invoice_qty"

definition variance :: "rate_data \<Rightarrow> real \<Rightarrow> real \<Rightarrow> real" where
  "variance rd invoice_qty invoice_price =
     (if 0 < adjusted_avg rd invoice_qty
      then ((invoice_price - adjusted_avg rd invoice_qty) / adjusted_avg rd invoice_qty) * 100
      else 0)"

definition price_ratio :: "rate_data \<Rightarrow> real \<Rightarrow> real \<Rightarrow> real" where
  "price_ratio rd invoice_qty invoice_price =
     (if 0 < adjusted_avg rd invoice_qty then invoice_price / adjusted_avg rd invoice_qty
      else 999)"

definition money :: "pyfmt \<Rightarrow> real \<Rightarrow> string" where
  "money F x = ''$'' @ fixed F 2 x"

definition range_display :: "pyfmt \<Rightarrow> rate_data \<Rightarrow> string" where
  "range_display F rd =
     (if rate_n rd = 1 then money F (rate_min rd) @ '' (1 data point)''
      else money F (rate_min rd) @ '' '' @ en_dash @ '' '' @ money F (rate_max rd))"

text \<open>One comparison record. A key the source leaves out of the dict is \<open>None\<close> here.\<close>

record line_comparison =
  lc_description :: string
  canonical_item :: string
  lc_quantity :: "real option"
  invoice_unit_price :: "real option"
  invoice_line_total :: "real option"
  contracted_range :: "string option"
  contracted_avg :: "real option"
  variance_from_avg_pct :: "real option"
  comp_status :: string
  data_points :: nat
  rate_source :: "string option"
  qty_adjustment :: "real option"
  comp_note :: string

text \<open>The branch of the loop body for an item with a resolved rate and a parsed price
  (the \<open>else\<close> of lines 120 to 189). The percentage of the OUTSIDE\_RANGE note divides by
  the buffered limit, which raises when that limit is zero.\<close>

definition priced_result :: "pyfmt \<Rightarrow> rate_data \<Rightarrow> string \<Rightarrow> real \<Rightarrow> real
    \<Rightarrow> line_comparison \<Rightarrow> py_error + line_comparison" where
  "priced_result F rd src invoice_qty invoice_price result =
     (let n = rate_n rd;
          factor = qty_factor rd invoice_qty;
          lo = adjusted_min rd invoice_qty;
          hi = adjusted_max rd invoice_qty;
          result1 = result\<lparr>contracted_range := Some (range_display F rd),
                      contracted_avg := Some (rate_avg rd),
                      variance_from_avg_pct :=
                        Some (py_round (variance rd invoice_qty invoice_price) 1),
                      data_points := n,
                      rate_source := Some src,
                      qty_adjustment := (if factor = 1 then None else Some (py_round factor 2))\<rparr>
      in if lo \<le> invoice_price \<and> invoice_price \<le> hi then
           Inr (result1\<lparr>comp_status := ''IN_RANGE'',
                  comp_note := money F invoice_price @ '' is within acceptable range (''
                    @ range_display F rd @ '', '' @ str_nat n @ '' data point''
                    @ (if 1 < n then ''s'' else []) @ '', ''
                    @ fixed F 0 (sample_buffer n * 100) @ ''% buffer''
                    @ (if factor = 1 then [] else '', qty-adjusted by '' @ fixed F 2 factor @ ''x'')
                    @ '').''\<rparr>)
         else
           let direction = (if invoice_price < lo then ''below'' else ''above'');
               ratio = price_ratio rd invoice_qty invoice_price
           in if MAX_PRICE_RATIO_HIGH < ratio \<or> ratio < MAX_PRICE_RATIO_LOW then
                Inr (result1\<lparr>comp_status := ''OUT_OF_RANGE'',
                       comp_note :=
                         (if MAX_PRICE_RATIO_HIGH < ratio then
                            ''OVERPRICED: '' @ money F invoice_price @ '' is '' @ fixed F 1 ratio
                            @ ''x the historical avg ('' @ money F (rate_avg rd) @ ''). ''
                            @ range_display F rd @ ''. Exceeds '' @ plain F MAX_PRICE_RATIO_HIGH
                            @ ''x ceiling.''
                          else
                            ''UNDERPRICED: '' @ money F invoice_price @ '' is '' @ fixed F 2 ratio
                            @ ''x the historical avg ('' @ money F (rate_avg rd) @ ''). ''
                            @ range_display F rd @ ''. Below '' @ plain F MAX_PRICE_RATIO_LOW
                            @ ''x floor '' @ em_dash
                            @ '' possible error, wrong item, or missing quantity.'')\<rparr>)
              else
                let limit = (if direction = ''below'' then lo else hi)
                in if limit = 0 then Inl ZeroDivisionError
                   else
                     let pct = \<bar>(invoice_price - limit) / limit\<bar> * 100
                     in Inr (result1\<lparr>comp_status := ''OUTSIDE_RANGE'',
                               comp_note := money F invoice_price @ '' is '' @ direction
                                 @ '' the historical range ('' @ range_display F rd @ '', avg ''
                                 @ money F (rate_avg rd) @ ''), '' @ fixed F 0 pct @ ''% ''
                                 @ direction @ '' the buffered limit. Ratio: '' @ fixed F 2 ratio
                                 @ ''x. Verify with vendor.''\<rparr>))"

text \<open>The rate lookup of the loop body: the static table first, the learning store when
  the table has no entry (or an empty one). \<open>PH\<close> is \<open>PRICE_HISTORY.get\<close>.\<close>

definition resolve_rate :: "(string \<times> string \<Rightarrow> price_record list option) \<Rightarrow> clock \<Rightarrow> store
    \<Rightarrow> string \<Rightarrow> string \<Rightarrow> py_error + (rate_data option \<times> string)" where
  "resolve_rate PH clk st vendor_name canonical =
     (case PH (vendor_name, canonical) of
        Some (r # rs) \<Rightarrow>
          (case summarize_history (r # rs) of
             Inl e \<Rightarrow> Inl e
           | Inr rd \<Rightarrow> Inr (Some rd, ''historical''))
      | _ \<Rightarrow>
          (case get_learned_rate clk st vendor_name canonical of
             Some learned \<Rightarrow> Inr (Some learned, ''learned_db'')
           | None \<Rightarrow> Inr (None, ''historical'')))"

text \<open>The loop body. \<open>normalize_item_name\<close> is the function of that name of the matcher.\<close>

definition compare_line_item :: "pyfmt \<Rightarrow> (string \<Rightarrow> string)
    \<Rightarrow> (string \<times> string \<Rightarrow> price_record list option) \<Rightarrow> clock \<Rightarrow> store
    \<Rightarrow> string \<Rightarrow> line_item \<Rightarrow> py_error + line_comparison" where
  "compare_line_item F normalize_item_name PH clk st vendor_name item =
     (let canonical = normalize_item_name (description item);
          invoice_price = unit_price item;
          invoice_qty = invoice_qty_of item
      in case resolve_rate PH clk st vendor_name canonical of
           Inl e \<Rightarrow> Inl e
         | Inr (rate, src) \<Rightarrow>
             let result = \<lparr>lc_description = description item, canonical_item = canonical,
                           lc_quantity = quantity item, invoice_unit_price = invoice_price,
                           invoice_line_total = line_total item, contracted_range = None,
                           contracted_avg = None, variance_from_avg_pct = None,
                           comp_status = [], data_points = 0, rate_source = None,
                           qty_adjustment = None, comp_note = []\<rparr>
             in case rate of
                  None \<Rightarrow>
                    Inr (result\<lparr>comp_status := ''NO_CONTRACT_RATE'', data_points := 0,
                           comp_note := ''No historical rate data for '' @ apos @ canonical @ apos
                             @ '' from '' @ vendor_name @ ''. Cannot compare '' @ em_dash
                             @ '' needs human review to establish baseline.''\<rparr>)
                | Some rd \<Rightarrow>
                    (case invoice_price of
                       None \<Rightarrow>
                         Inr (result\<lparr>contracted_range :=
                                  Some (money F (rate_min rd) @ '' '' @ en_dash @ '' ''
                                        @ money F (rate_max rd)),
                                contracted_avg := Some (rate_avg rd),
                                comp_status := ''MISSING_PRICE'', data_points := rate_n rd,
                                comp_note :=
                                  ''Invoice unit price could not be parsed from the document.''\<rparr>)
                     | Some p \<Rightarrow> priced_result F rd src invoice_qty p result))"

fun compare_line_items :: "pyfmt \<Rightarrow> (string \<Rightarrow> string)
    \<Rightarrow> (string \<times> string \<Rightarrow> price_record list option) \<Rightarrow> clock \<Rightarrow> store
    \<Rightarrow> string \<Rightarrow> line_item list \<Rightarrow> py_error + line_comparison list" where
  "compare_line_items F normalize_item_name PH clk st vendor_name [] = Inr []"
| "compare_line_items F normalize_item_name PH clk st vendor_name (item # rest) =
     (case compare_line_item F normalize_item_name PH clk st vendor_name item of
        Inl e \<Rightarrow> Inl e
      | Inr r \<Rightarrow>
          (case compare_line_items F normalize_item_name PH clk st vendor_name rest of
             Inl e \<Rightarrow> Inl e
           | Inr rs \<Rightarrow> Inr (r # rs)))"

section \<open>Math, tax and shipping checks (comparator.py)\<close>

text \<open>The test of one line in \<open>check_math\<close>: the issues it appends (one or none). The
  guard \<open>if qty and price and line_total\<close> is Python's truth test of the three values.\<close>

definition line_issue :: "pyfmt \<Rightarrow> line_item \<Rightarrow> string list" where
  "line_issue F item =
     (case (quantity item, unit_price item, line_total item) of
        (Some q, Some p, Some t) \<Rightarrow>
          if q \<noteq> 0 \<and> p \<noteq> 0 \<and> t \<noteq> 0 then
            let expected = py_round (q * p) 2
            in if 0.50 < \<bar>expected - t\<bar> then
                 [''Line math: '' @ description item @ '' '' @ em_dash @ '' '' @ plain F q
                  @ '' x '' @ money F p @ '' = '' @ money F expected
                  @ '', but invoice shows '' @ money F t]
               else []
          else []
      | _ \<Rightarrow> [])"

definition line_sum :: "line_item list \<Rightarrow> real" where
  "line_sum items = sum_list (map (\<lambda>i. or_else (line_total i) 0) items)"

definition subtotal_issue :: "pyfmt \<Rightarrow> line_item list \<Rightarrow> real option \<Rightarrow> string list" where
  "subtotal_issue F items subtotal =
     (case subtotal of
        None \<Rightarrow> []
      | Some s \<Rightarrow>
          if 1.00 < \<bar>line_sum items - s\<bar> then
            [''Subtotal: lines sum to '' @ money F (line_sum items) @ '', invoice shows ''
             @ money F s]
          else [])"

definition expected_total :: "real \<Rightarrow> real option \<Rightarrow> real option \<Rightarrow> real" where
  "expected_total s tax shipping = s + or_else tax 0 + or_else shipping 0"

definition total_issue :: "pyfmt \<Rightarrow> real option \<Rightarrow> real option \<Rightarrow> real option
    \<Rightarrow> real option \<Rightarrow> string list" where
  "total_issue F subtotal tax shipping total_amt =
     (case (total_amt, subtotal) of
        (Some t, Some s) \<Rightarrow>
          if 1.00 < \<bar>expected_total s tax shipping - t\<bar> then
            [''Total: '' @ money F s @ '' + tax('' @ money F (or_else tax 0)
             @ '') + shipping('' @ money F (or_else shipping 0) @ '') = ''
             @ money F (expected_total s tax shipping) @ '', but invoice shows '' @ money F t]
          else []
      | _ \<Rightarrow> [])"

definition check_math :: "pyfmt \<Rightarrow> line_item list \<Rightarrow> real option \<Rightarrow> real option
    \<Rightarrow> real option \<Rightarrow> real option \<Rightarrow> string list" where
  "check_math F items subtotal tax shipping total_amt =
     concat (map (line_issue F) items) @ subtotal_issue F items subtotal
     @ total_issue F subtotal tax shipping total_amt"

text \<open>The dict that \<open>check_tax\<close> and \<open>check_shipping\<close> return.\<close>

record check_result =
  chk_status :: string
  chk_effective_rate :: "real option"
  chk_note :: string

definition effective_rate :: "real \<Rightarrow> real \<Rightarrow> real" where
  "effective_rate subtotal tax = (if 0 < subtotal then tax / subtotal else 0)"

text \<open>The test of the loop over \<open>VALID_TAX_RATES\<close>; the loop returns at the first rate
  that passes it.\<close>

definition rate_matches :: "real \<Rightarrow> real \<Rightarrow> bool" where
  "rate_matches eff valid_rate = (0 < valid_rate \<and> \<bar>eff - valid_rate\<bar> \<le> TAX_TOLERANCE)"

definition check_tax :: "pyfmt \<Rightarrow> string \<Rightarrow> real option \<Rightarrow> real option \<Rightarrow> check_result" where
  "check_tax F vendor_name subtotal tax =
     (case (subtotal, tax) of
        (Some s, Some t) \<Rightarrow>
          if t = 0 then
            \<lparr>chk_status = ''OBSERVATION'', chk_effective_rate = None,
             chk_note = ''No tax charged ($0). Could be tax-exempt or bundled into unit prices.''\<rparr>
          else
            let eff = effective_rate s t
            in (case List.find (rate_matches eff) VALID_TAX_RATES of
                  Some valid_rate \<Rightarrow>
                    \<lparr>chk_status = ''OK'', chk_effective_rate = Some (py_round (eff * 100) 2),
                     chk_note = ''Tax rate '' @ fixed F 2 (eff * 100) @ ''% matches known rate ''
                       @ fixed F 1 (valid_rate * 100) @ ''%.''\<rparr>
                | None \<Rightarrow>
                    \<lparr>chk_status = ''OBSERVATION'',
                     chk_effective_rate = Some (py_round (eff * 100) 2),
                     chk_note = ''Tax rate '' @ fixed F 2 (eff * 100) @ ''% doesn'' @ apos
                       @ ''t match known rates (''
                       @ join '', '' (map (\<lambda>r. fixed F 1 (r * 100) @ ''%'')
                                        (filter (\<lambda>r. 0 < r) VALID_TAX_RATES))
                       @ '').''\<rparr>)
      | _ \<Rightarrow>
          \<lparr>chk_status = ''OBSERVATION'', chk_effective_rate = None,
           chk_note = ''Missing subtotal or tax value.''\<rparr>)"

text \<open>\<open>check_shipping\<close>. \<open>SMS\<close> is \<open>SHIPPING_MAX_SEEN.get\<close>.\<close>

definition check_shipping :: "pyfmt \<Rightarrow> (string \<Rightarrow> real option) \<Rightarrow> string \<Rightarrow> real option
    \<Rightarrow> check_result" where
  "check_shipping F SMS vendor_name shipping =
     (case shipping of
        None \<Rightarrow>
          \<lparr>chk_status = ''OBSERVATION'', chk_effective_rate = None,
           chk_note = ''No shipping field found.''\<rparr>
      | Some s \<Rightarrow>
          if s = 0 then
            \<lparr>chk_status = ''OK'', chk_effective_rate = None, chk_note = ''No shipping charged.''\<rparr>
          else
            (case SMS vendor_name of
               None \<Rightarrow>
                 \<lparr>chk_status = ''OBSERVATION'', chk_effective_rate = None,
                  chk_note = ''Shipping '' @ money F s @ ''. No history to compare.''\<rparr>
             | Some max_seen \<Rightarrow>
                 if s \<le> max_seen then
                   \<lparr>chk_status = ''OK'', chk_effective_rate = None,
                    chk_note = ''Shipping '' @ money F s @ '' within norms (max seen: ''
                      @ money F max_seen @ '').''\<rparr>
                 else
                   \<lparr>chk_status = ''OBSERVATION'', chk_effective_rate = None,
                    chk_note = ''Shipping '' @ money F s @ '' above max seen (''
                      @ money F max_seen @ ''). Could be distance/rush.''\<rparr>))"

section \<open>The decision (decision.py)\<close>

record vendor_match =
  canonical_name :: "string option"
  match_type :: string
  confidence :: real

record decision =
  status :: string
  reason_codes :: "string list"
  observations :: "string list"
  clarifying_questions :: "string list"

text \<open>The three lists that \<open>decide\<close> appends to while it runs: \<open>flags\<close>,
  \<open>observations\<close> and \<open>questions\<close> of the source.\<close>

record lists =
  flags :: "string list"
  remarks :: "string list"
  questions :: "string list"

definition percent :: "pyfmt \<Rightarrow> real \<Rightarrow> string" where
  "percent F c = fixed F 0 (c * 100)"

definition vendor_onboarding_question :: string where
  "vendor_onboarding_question =
     ''This vendor is not in our approved vendor list. ''
     @ ''Is this a new vendor that needs onboarding, or a known vendor under a different name?''"

definition vendor_confirm_question :: "pyfmt \<Rightarrow> vendor_match \<Rightarrow> string" where
  "vendor_confirm_question F vm =
     ''Vendor matched to '' @ apos @ str_opt (canonical_name vm) @ apos @ '' with only ''
     @ percent F (confidence vm) @ ''% confidence. Is this correct?''"

text \<open>The vendor check: the first \<open>if\<close> chain of \<open>decide\<close>.\<close>

definition vendor_check :: "pyfmt \<Rightarrow> vendor_match \<Rightarrow> lists \<Rightarrow> lists" where
  "vendor_check F vm L =
     (if match_type vm = ''none'' then
        L\<lparr>flags := flags L @ [''VENDOR_NOT_IN_APPROVED_LIST''],
          questions := questions L @ [vendor_onboarding_question]\<rparr>
      else if match_type vm = ''fuzzy_low_confidence'' then
        L\<lparr>flags := flags L @ [''VENDOR_LOW_CONFIDENCE_MATCH''],
          questions := questions L @ [vendor_confirm_question F vm]\<rparr>
      else if match_type vm = ''fuzzy'' then
        L\<lparr>remarks := remarks L @
             [''Vendor fuzzy-matched to '' @ apos @ str_opt (canonical_name vm) @ apos @ '' (''
              @ percent F (confidence vm) @ ''% confidence).'']\<rparr>
      else if match_type vm = ''alias'' then
        L\<lparr>remarks := remarks L @
             [''Vendor matched via known alias to '' @ apos @ str_opt (canonical_name vm) @ apos
              @ ''.'']\<rparr>
      else L)"

text \<open>One round of the loop that sorts the comparisons into \<open>items_no_rate\<close>,
  \<open>items_out_of_range\<close> and \<open>items_outside_range\<close> and flags a missing price. The state
  is the three lists and \<open>flags\<close>.\<close>

type_synonym sorted_items =
  "line_comparison list \<times> line_comparison list \<times> line_comparison list \<times> string list"

definition sort_item :: "line_comparison \<Rightarrow> sorted_items \<Rightarrow> sorted_items" where
  "sort_item cmp s =
     (case s of (no_rate, out_of_range, outside_range, fl) \<Rightarrow>
        if comp_status cmp = ''NO_CONTRACT_RATE'' then
          (no_rate @ [cmp], out_of_range, outside_range, fl)
        else if comp_status cmp = ''OUT_OF_RANGE'' then
          (no_rate, out_of_range @ [cmp], outside_range, fl)
        else if comp_status cmp = ''OUTSIDE_RANGE'' then
          (no_rate, out_of_range, outside_range @ [cmp], fl)
        else if comp_status cmp = ''MISSING_PRICE'' then
          (no_rate, out_of_range, outside_range, fl @ [''MISSING_PRICE:'' @ canonical_item cmp])
        else s)"

text \<open>\<open>_assess_unknown_items\<close>: the two lists of its loop, then its appends.\<close>

fun unknown_split :: "pyfmt \<Rightarrow> line_comparison list \<Rightarrow> string list \<times> string list" where
  "unknown_split F [] = ([], [])"
| "unknown_split F (cmp # rest) =
     (case unknown_split F rest of (reasonable, concerning) \<Rightarrow>
        (case invoice_unit_price cmp of
           None \<Rightarrow> (reasonable, canonical_item cmp # concerning)
         | Some p \<Rightarrow>
             if 1 \<le> p \<and> p \<le> 1000 then
               ((canonical_item cmp @ '' ('' @ money F p @ '')'') # reasonable, concerning)
             else
               (reasonable, (canonical_item cmp @ '' ('' @ money F p @ '')'') # concerning)))"

definition first_order_question :: string where
  "first_order_question =
     ''This vendor has no invoice history. Is this a first-time order? ''
     @ ''Please confirm the prices match the agreed contract terms.''"

definition assess_unknown_items :: "pyfmt \<Rightarrow> line_comparison list \<Rightarrow> lists \<Rightarrow> lists" where
  "assess_unknown_items F items L =
     (case unknown_split F items of (reasonable, concerning) \<Rightarrow>
        L\<lparr>remarks := remarks L
             @ (if reasonable = [] then []
                else [''Prices appear reasonable: '' @ join '', '' reasonable @ ''.''])
             @ (if concerning = [] then []
                else [''Unusual pricing '' @ em_dash @ '' needs review: ''
                      @ join '', '' concerning @ ''.'']),
          questions := questions L @ [first_order_question]\<rparr>)"

definition no_rate_question :: "string list \<Rightarrow> string" where
  "no_rate_question names =
     ''No historical pricing for: '' @ join '', '' names
     @ ''. Are these new products/services from this vendor? ''
     @ ''If approved, these prices become the baseline for future invoices.''"

text \<open>The block \<open>if items_no_rate\<close>.\<close>

definition no_rate_check :: "pyfmt \<Rightarrow> vendor_match \<Rightarrow> line_comparison list \<Rightarrow> lists \<Rightarrow> lists" where
  "no_rate_check F vm items_no_rate L =
     (if items_no_rate = [] then L
      else
        let names = map canonical_item items_no_rate
        in if match_type vm = ''none'' then
             assess_unknown_items F items_no_rate
               (L\<lparr>flags := flags L @ [''VENDOR_NOT_IN_APPROVED_LIST'']\<rparr>)
           else
             L\<lparr>flags := flags L @ [''NEW_ITEMS_NO_RATE_HISTORY:'' @ join '', '' names],
               questions := questions L @ [no_rate_question names]\<rparr>)"

text \<open>A sequence of computations that may raise: the first error ends it.\<close>

fun collect :: "('a \<Rightarrow> py_error + 'b) \<Rightarrow> 'a list \<Rightarrow> py_error + 'b list" where
  "collect f [] = Inr []"
| "collect f (x # xs) =
     (case f x of
        Inl e \<Rightarrow> Inl e
      | Inr y \<Rightarrow> (case collect f xs of Inl e \<Rightarrow> Inl e | Inr ys \<Rightarrow> Inr (y # ys)))"

text \<open>The detail of one OUT\_OF\_RANGE item. Formatting \<open>None\<close> with \<open>.2f\<close> raises.\<close>

definition out_of_range_detail :: "pyfmt \<Rightarrow> line_comparison \<Rightarrow> py_error + string" where
  "out_of_range_detail F c =
     (case (invoice_unit_price c, contracted_avg c) of
        (Some p, Some a) \<Rightarrow>
          Inr (canonical_item c @ '' ('' @ money F p @ '' vs avg '' @ money F a @ '' '' @ em_dash
               @ '' '' @ takeWhile (\<lambda>ch. ch \<noteq> CHR '':'') (comp_note c) @ '')'')
      | _ \<Rightarrow> Inl TypeError)"

definition anomaly_question :: "string list \<Rightarrow> string" where
  "anomaly_question details =
     ''Price anomalies beyond the 1.5x/0.75x threshold: '' @ join ''; '' details
     @ ''. Please verify these prices with the vendor before approving.''"

text \<open>The block \<open>if items_out_of_range\<close>.\<close>

definition out_of_range_check :: "pyfmt \<Rightarrow> line_comparison list \<Rightarrow> lists \<Rightarrow> py_error + lists" where
  "out_of_range_check F items_out_of_range L =
     (if items_out_of_range = [] then Inr L
      else
        case collect (out_of_range_detail F) items_out_of_range of
          Inl e \<Rightarrow> Inl e
        | Inr details \<Rightarrow>
            Inr (L\<lparr>flags := flags L
                     @ map (\<lambda>c. ''PRICE_ANOMALY:'' @ canonical_item c) items_out_of_range,
                   questions := questions L @ [anomaly_question details]\<rparr>))"

definition outside_range_detail :: "pyfmt \<Rightarrow> line_comparison \<Rightarrow> py_error + string" where
  "outside_range_detail F c =
     (case invoice_unit_price c of
        Some p \<Rightarrow>
          Inr (canonical_item c @ '' ('' @ money F p @ '' vs '' @ str_opt (contracted_range c)
               @ '')'')
      | None \<Rightarrow> Inl TypeError)"

definition priced :: "line_comparison \<Rightarrow> bool" where
  "priced c = (comp_status c \<notin> set [''MISSING_PRICE'', ''NO_CONTRACT_RATE''])"

definition total_priced :: "line_comparison list \<Rightarrow> nat" where
  "total_priced line_comparisons = length (filter priced line_comparisons)"

definition all_outside :: "line_comparison list \<Rightarrow> line_comparison list
    \<Rightarrow> line_comparison list \<Rightarrow> bool" where
  "all_outside line_comparisons items_out_of_range items_outside_range =
     (length items_outside_range + length items_out_of_range = total_priced line_comparisons
      \<and> 1 < total_priced line_comparisons)"

definition systemic_question :: string where
  "systemic_question =
     ''Every line item is priced outside the historical range. ''
     @ ''Has there been a contract renegotiation or pricing restructure?''"

text \<open>The block \<open>if items_outside_range\<close>, with the pattern detection.\<close>

definition outside_range_check :: "pyfmt \<Rightarrow> line_comparison list \<Rightarrow> line_comparison list
    \<Rightarrow> line_comparison list \<Rightarrow> lists \<Rightarrow> py_error + lists" where
  "outside_range_check F line_comparisons items_out_of_range items_outside_range L =
     (if items_outside_range = [] then Inr L
      else
        case collect (outside_range_detail F) items_outside_range of
          Inl e \<Rightarrow> Inl e
        | Inr details \<Rightarrow>
            Inr (L\<lparr>flags := flags L
                     @ map (\<lambda>c. ''PRICE_OUTSIDE_RANGE:'' @ canonical_item c) items_outside_range,
                   questions := questions L
                     @ (if all_outside line_comparisons items_out_of_range items_outside_range
                        then [systemic_question] else []),
                   remarks := remarks L
                     @ [''Price variance: '' @ join ''; '' details @ ''. Verify with vendor.'']\<rparr>))"

definition math_question :: string where
  "math_question =
     ''The invoice math doesn'' @ apos @ ''t add up. Is this a rounding issue, ''
     @ ''or could there be a missing line item or incorrect amount?''"

definition math_check :: "string list \<Rightarrow> lists \<Rightarrow> lists" where
  "math_check math_issues L =
     (if math_issues = [] then L
      else L\<lparr>flags := flags L @ [''MATH_DISCREPANCY''],
             remarks := remarks L @ map (\<lambda>issue. ''Math issue: '' @ issue) math_issues,
             questions := questions L @ [math_question]\<rparr>)"

definition observe :: "string \<Rightarrow> check_result \<Rightarrow> lists \<Rightarrow> lists" where
  "observe label chk L =
     (if chk_status chk = ''OBSERVATION'' then L\<lparr>remarks := remarks L @ [label @ chk_note chk]\<rparr>
      else if chk_status chk = ''OK'' then L\<lparr>remarks := remarks L @ [label @ chk_note chk]\<rparr>
      else L)"

definition tax_shipping_check :: "check_result \<Rightarrow> check_result \<Rightarrow> lists \<Rightarrow> lists" where
  "tax_shipping_check tax_check shipping_check L =
     observe ''Shipping: '' shipping_check (observe ''Tax: '' tax_check L)"

definition critical_warnings :: "string list \<Rightarrow> string list" where
  "critical_warnings extraction_warnings =
     filter (\<lambda>w. w \<in> set [''NO_LINE_ITEMS_FOUND'', ''EMPTY_PDF'', ''MISSING_TOTAL''])
       extraction_warnings"

definition extraction_check :: "string list \<Rightarrow> lists \<Rightarrow> lists" where
  "extraction_check extraction_warnings L =
     (let critical = critical_warnings extraction_warnings;
          L1 = (if critical = [] then L
                else L\<lparr>flags := flags L @ [''EXTRACTION_FAILURE:'' @ join '', '' critical]\<rparr>);
          non_critical = filter (\<lambda>w. w \<notin> set critical) extraction_warnings
      in if non_critical = [] then L1
         else L1\<lparr>remarks := remarks L1 @ [''Extraction notes: '' @ join '', '' non_critical]\<rparr>)"

text \<open>\<open>decide\<close> up to the line \<open>FINAL DECISION\<close>: the three lists, or the error raised
  on the way.\<close>

definition decide_lists :: "pyfmt \<Rightarrow> vendor_match \<Rightarrow> line_comparison list \<Rightarrow> string list
    \<Rightarrow> check_result \<Rightarrow> check_result \<Rightarrow> string list \<Rightarrow> py_error + lists" where
  "decide_lists F vm line_comparisons math_issues tax_check shipping_check extraction_warnings =
     (let L1 = vendor_check F vm \<lparr>flags = [], remarks = [], questions = []\<rparr>
      in case fold sort_item line_comparisons ([], [], [], flags L1) of
           (items_no_rate, items_out_of_range, items_outside_range, fl) \<Rightarrow>
             let L2 = no_rate_check F vm items_no_rate (L1\<lparr>flags := fl\<rparr>)
             in case out_of_range_check F items_out_of_range L2 of
                  Inl e \<Rightarrow> Inl e
                | Inr L3 \<Rightarrow>
                    (case outside_range_check F line_comparisons items_out_of_range
                            items_outside_range L3 of
                       Inl e \<Rightarrow> Inl e
                     | Inr L4 \<Rightarrow>
                         Inr (extraction_check extraction_warnings
                                (tax_shipping_check tax_check shipping_check
                                   (math_check math_issues L4)))))"

definition default_question :: string where
  "default_question =
     ''This invoice passed all automated checks. Please confirm the ''
     @ ''quantities and descriptions match what was actually received ''
     @ ''before final approval.''"

text \<open>The final decision: the status, the default question, the cap at three.\<close>

definition final_decision :: "lists \<Rightarrow> decision" where
  "final_decision L =
     (let st = (if length (flags L) = 0 then ''APPROVED'' else ''FLAGGED'');
          qs = (if questions L = [] then questions L @ [default_question] else questions L)
      in \<lparr>status = st, reason_codes = flags L, observations = remarks L,
          clarifying_questions = take 3 qs\<rparr>)"

definition decide :: "pyfmt \<Rightarrow> vendor_match \<Rightarrow> line_comparison list \<Rightarrow> string list
    \<Rightarrow> check_result \<Rightarrow> check_result \<Rightarrow> string list \<Rightarrow> py_error + decision" where
  "decide F vm line_comparisons math_issues tax_check shipping_check extraction_warnings =
     (case decide_lists F vm line_comparisons math_issues tax_check shipping_check
             extraction_warnings of
        Inl e \<Rightarrow> Inl e
      | Inr L \<Rightarrow> Inr (final_decision L))"

section \<open>The learning store: what recording changes\<close>

text \<open>
  C9. For every invoice payload and vendor name, \<open>record_invoice\<close> called with a decision
  status other than APPROVED leaves the learning store unchanged: no invoice entry and no
  price-history point is added.
\<close>

theorem record_invoice_not_approved_noop:
  "decision_status \<noteq> ''APPROVED''
   \<Longrightarrow> record_invoice clk idata decision_status vendor_name st = st"
  by (simp add: record_invoice_def)

theorem record_invoice_not_approved_noop_witness:
  "''FLAGGED'' \<noteq> ''APPROVED'' \<and>
   record_invoice \<lparr>at_load = ''t0'', at_entry = ''t1'', at_save = ''t2''\<rparr>
     \<lparr>invoice_number = Some (Some ''INV-1001''), invoice_date = Some ''2025-01-05'',
      line_items = [\<lparr>description = ''A4 Paper Box'', quantity = Some 24,
                     unit_price = Some 90, line_total = Some 2160\<rparr>],
      inv_total = Some 2160, inv_tax = None, inv_shipping = None\<rparr>
     ''FLAGGED'' ''Acme Supplies Inc.'' None = None"
proof -
  have h: "''FLAGGED'' \<noteq> ''APPROVED''" by simp
  show ?thesis
    using h record_invoice_not_approved_noop [OF h] by simp
qed

text \<open>
  C8. Calling \<open>record_invoice\<close> twice with the same invoice number and APPROVED status
  leaves the store as the first call left it: the second call adds no invoice entry and no
  price-history point, whatever the rest of the second payload, its vendor name and the
  clock are.
\<close>

theorem record_invoice_idempotent:
  "invoice_number idata2 = invoice_number idata1
   \<Longrightarrow> record_invoice clk2 idata2 ''APPROVED'' vendor2
         (record_invoice clk1 idata1 ''APPROVED'' vendor1 st)
       = record_invoice clk1 idata1 ''APPROVED'' vendor1 st"
  by (cases st) (simp_all add: record_invoice_def Let_def load_db_def save_db_def)

theorem record_invoice_idempotent_witness:
  "record_invoice \<lparr>at_load = ''t3'', at_entry = ''t4'', at_save = ''t5''\<rparr>
     \<lparr>invoice_number = Some (Some ''INV-1001''), invoice_date = Some ''2025-01-05'',
      line_items = [\<lparr>description = ''A4 Paper Box'', quantity = Some 24,
                     unit_price = Some 90, line_total = Some 2160\<rparr>],
      inv_total = Some 2160, inv_tax = None, inv_shipping = None\<rparr>
     ''APPROVED'' ''Acme Supplies Inc.''
     (record_invoice \<lparr>at_load = ''t0'', at_entry = ''t1'', at_save = ''t2''\<rparr>
        \<lparr>invoice_number = Some (Some ''INV-1001''), invoice_date = Some ''2025-01-05'',
         line_items = [\<lparr>description = ''A4 Paper Box'', quantity = Some 24,
                        unit_price = Some 90, line_total = Some 2160\<rparr>],
         inv_total = Some 2160, inv_tax = None, inv_shipping = None\<rparr>
        ''APPROVED'' ''Acme Supplies Inc.'' None)
   = Some \<lparr>db_metadata = \<lparr>created = ''t0'', version = ''1.0'', last_updated = Some ''t2''\<rparr>,
            invoices = [\<lparr>ie_invoice_number = Some ''INV-1001'', ie_vendor = ''Acme Supplies Inc.'',
                         ie_date = Some ''2025-01-05'', ie_total = Some 2160, ie_tax = None,
                         ie_shipping = None, ie_recorded_at = ''t1''\<rparr>],
            price_history = [(''Acme Supplies Inc.|A4 Paper Box'',
                              [\<lparr>pp_unit_price = Some 90, pp_quantity = Some 24,
                                pp_line_total = Some 2160, pp_date = Some ''2025-01-05'',
                                pp_invoice_id = Some ''INV-1001''\<rparr>])]\<rparr>"
proof -
  have first: "record_invoice \<lparr>at_load = ''t0'', at_entry = ''t1'', at_save = ''t2''\<rparr>
        \<lparr>invoice_number = Some (Some ''INV-1001''), invoice_date = Some ''2025-01-05'',
         line_items = [\<lparr>description = ''A4 Paper Box'', quantity = Some 24,
                        unit_price = Some 90, line_total = Some 2160\<rparr>],
         inv_total = Some 2160, inv_tax = None, inv_shipping = None\<rparr>
        ''APPROVED'' ''Acme Supplies Inc.'' None
     = Some \<lparr>db_metadata = \<lparr>created = ''t0'', version = ''1.0'', last_updated = Some ''t2''\<rparr>,
            invoices = [\<lparr>ie_invoice_number = Some ''INV-1001'', ie_vendor = ''Acme Supplies Inc.'',
                         ie_date = Some ''2025-01-05'', ie_total = Some 2160, ie_tax = None,
                         ie_shipping = None, ie_recorded_at = ''t1''\<rparr>],
            price_history = [(''Acme Supplies Inc.|A4 Paper Box'',
                              [\<lparr>pp_unit_price = Some 90, pp_quantity = Some 24,
                                pp_line_total = Some 2160, pp_date = Some ''2025-01-05'',
                                pp_invoice_id = Some ''INV-1001''\<rparr>])]\<rparr>"
    by (simp add: record_invoice_def Let_def load_db_def save_db_def record_item_def
        strip_def is_space_def)
  show ?thesis
    unfolding record_invoice_idempotent [OF refl] by (rule first)
qed

end
